theory Spec2Isabelle
  imports Complex_Main
begin

section \<open>Raw records\<close>

text \<open>
  A raw record is the Python dictionary the fetch or the synthetic generator produces: string
  keys, JSON-like values, in insertion order (the order decides the data frame's columns
  later). A finite float is read as the real number it denotes: the schema only compares
  numbers and tests them for a fractional part, so no rounding is involved. The non-finite
  floats, which Python's \<^verbatim>\<open>json\<close> reads from the literals \<^verbatim>\<open>NaN\<close>,
  \<^verbatim>\<open>Infinity\<close> and \<^verbatim>\<open>-Infinity\<close>, are values of their own.
\<close>

datatype pyval =
    PNone
  | PBool bool
  | PInt int
  | PFloat real
  | PNaN
  | PInf
  | PNegInf
  | PStr string
  | PDict "(string \<times> pyval) list"
  | PList "pyval list"

type_synonym raw_record = "(string \<times> pyval) list"

text \<open>\<^verbatim>\<open>record.get(key, default)\<close>\<close>

definition get :: "raw_record \<Rightarrow> string \<Rightarrow> pyval \<Rightarrow> pyval" where
  "get r k d = (case map_of r k of None \<Rightarrow> d | Some v \<Rightarrow> v)"

text \<open>
  The exceptions that leave the two assets: the division of the summary line, the
  \<^verbatim>\<open>ValueError\<close> raised when no input is given, a value that the format
  \<^verbatim>\<open>:,.2f\<close> of a log line does not take, pandas refusing a date column that mixes UTC
  offsets, DuckDB refusing the insert (the column counts differ, or a value does not convert to
  its column's type), and dagster refusing an output that is not of the annotated type.
\<close>

datatype py_error =
    ZeroDivisionError
  | ValueError string
  | FormatError
  | DatetimeError
  | BinderException
  | ConversionException
  | DagsterTypeCheckDidNotPass

section \<open>The schema: models.py, class CryptoPrice\<close>

text \<open>
  The class is a pydantic model. What pydantic does with a field annotation is library
  behaviour, written out here for the JSON-like values above (lax mode, the default):
  a \<^verbatim>\<open>str\<close> field takes a string only; an \<^verbatim>\<open>int\<close> field takes an
  integer, a boolean, a finite float with no fractional part that lies strictly between
  \<open>-2^63\<close> and \<open>2^63\<close>, or a string that parses as an integer; a \<^verbatim>\<open>float\<close> field
  takes a float (NaN and the infinities included), a boolean, an integer that converts to a
  float (below \<open>2^1024 - 2^970\<close> in absolute value, where Python's conversion overflows), or a
  string that parses as a number. How pydantic parses a numeric string is left open: the two
  parsers are parameters.
\<close>

record library =
  str_as_int :: "string \<Rightarrow> int option"
  str_as_float :: "string \<Rightarrow> real option"

datatype annotation = TStr | TInt | TFloat | TDict | TOptional annotation

datatype cval =
    CNone
  | CStr string
  | CInt int
  | CFloat real
  | CNaN
  | CInf
  | CNegInf
  | CDict "(string \<times> pyval) list"

fun coerce :: "library \<Rightarrow> annotation \<Rightarrow> pyval \<Rightarrow> string + cval" where
  "coerce L TStr v =
     (case v of PStr s \<Rightarrow> Inr (CStr s) | _ \<Rightarrow> Inl ''Input should be a valid string'')"
| "coerce L TInt v =
     (case v of
        PInt n \<Rightarrow> Inr (CInt n)
      | PBool b \<Rightarrow> Inr (CInt (if b then 1 else 0))
      | PFloat x \<Rightarrow>
          if frac x \<noteq> 0
          then Inl ''Input should be a valid integer, got a number with a fractional part''
          else if - (2 ^ 63) < x \<and> x < 2 ^ 63 then Inr (CInt \<lfloor>x\<rfloor>)
          else Inl ''Unable to parse input string as an integer, exceeded maximum size''
      | PNaN \<Rightarrow> Inl ''Input should be a finite number''
      | PInf \<Rightarrow> Inl ''Input should be a finite number''
      | PNegInf \<Rightarrow> Inl ''Input should be a finite number''
      | PStr s \<Rightarrow>
          (case str_as_int L s of
             Some n \<Rightarrow> Inr (CInt n)
           | None \<Rightarrow> Inl ''Input should be a valid integer, unable to parse string as an integer'')
      | _ \<Rightarrow> Inl ''Input should be a valid integer'')"
| "coerce L TFloat v =
     (case v of
        PFloat x \<Rightarrow> Inr (CFloat x)
      | PNaN \<Rightarrow> Inr CNaN
      | PInf \<Rightarrow> Inr CInf
      | PNegInf \<Rightarrow> Inr CNegInf
      | PInt n \<Rightarrow>
          if \<bar>n\<bar> < 2 ^ 1024 - 2 ^ 970 then Inr (CFloat (of_int n))
          else Inl ''Input should be a valid number''
      | PBool b \<Rightarrow> Inr (CFloat (if b then 1 else 0))
      | PStr s \<Rightarrow>
          (case str_as_float L s of
             Some x \<Rightarrow> Inr (CFloat x)
           | None \<Rightarrow> Inl ''Input should be a valid number, unable to parse string as a number'')
      | _ \<Rightarrow> Inl ''Input should be a valid number'')"
| "coerce L TDict v =
     (case v of PDict d \<Rightarrow> Inr (CDict d) | _ \<Rightarrow> Inl ''Input should be a valid dictionary'')"
| "coerce L (TOptional a) v = (case v of PNone \<Rightarrow> Inr CNone | _ \<Rightarrow> coerce L a v)"

text \<open>The 27 annotated fields, in the order of the class body (lines 21 to 67).\<close>

definition CryptoPrice_fields :: "(string \<times> annotation) list" where
  "CryptoPrice_fields =
     [(''id'', TStr), (''symbol'', TStr), (''name'', TStr), (''image'', TStr),
      (''current_price'', TFloat), (''market_cap'', TInt), (''market_cap_rank'', TInt),
      (''fully_diluted_valuation'', TOptional TInt), (''total_volume'', TInt),
      (''high_24h'', TFloat), (''low_24h'', TFloat),
      (''price_change_24h'', TFloat), (''price_change_percentage_24h'', TFloat),
      (''market_cap_change_24h'', TFloat), (''market_cap_change_percentage_24h'', TFloat),
      (''circulating_supply'', TFloat), (''total_supply'', TOptional TFloat),
      (''max_supply'', TOptional TFloat),
      (''ath'', TFloat), (''ath_change_percentage'', TFloat), (''ath_date'', TStr),
      (''atl'', TFloat), (''atl_change_percentage'', TFloat), (''atl_date'', TStr),
      (''roi'', TOptional TDict), (''last_updated'', TStr), (''fetched_at'', TOptional TStr)]"

subsection \<open>The field validators\<close>

text \<open>
  \<^verbatim>\<open>re.match(r'^[a-z0-9]+$', v)\<close>: one or more characters of the class from the start of
  the string, then the end of the string. Python's \<^verbatim>\<open>$\<close> also matches just before a
  newline that ends the string.
\<close>

definition symbol_char :: "char \<Rightarrow> bool" where
  "symbol_char c =
     (let n = (of_char c :: nat) in (97 \<le> n \<and> n \<le> 122) \<or> (48 \<le> n \<and> n \<le> 57))"

definition re_match_symbol :: "string \<Rightarrow> bool" where
  "re_match_symbol v =
     (let body = takeWhile symbol_char v; rest = dropWhile symbol_char v
      in body \<noteq> [] \<and> (rest = [] \<or> rest = [CHR 0x0A]))"

definition validate_symbol :: "string \<Rightarrow> string + string" where
  "validate_symbol v =
     (if \<not> re_match_symbol v then Inl ''Symbol must be lowercase alphanumeric'' else Inr v)"

definition validate_positive_values :: "'a::linordered_idom \<Rightarrow> string + 'a" where
  "validate_positive_values v =
     (if v < 0 then Inl ''Price and volume values must be positive'' else Inr v)"

definition validate_rank :: "int \<Rightarrow> string + int" where
  "validate_rank v = (if v \<le> 0 then Inl ''Market cap rank must be positive'' else Inr v)"

definition validate_percentage :: "real \<Rightarrow> string + real" where
  "validate_percentage v =
     (if \<bar>v\<bar> > 1000 then Inl ''Percentage change seems unreasonable'' else Inr v)"

text \<open>
  The decorators attach each validator to its fields; it runs on the coerced value, after the
  annotation's own check has passed. On the non-finite floats the comparisons are written
  out: \<^verbatim>\<open>v < 0\<close> holds of \<open>-inf\<close> only, and \<^verbatim>\<open>abs(v) > 1000\<close> of both
  infinities; every comparison with NaN is false.
\<close>

definition positive_fields :: "string list" where
  "positive_fields = [''current_price'', ''market_cap'', ''total_volume'', ''high_24h'', ''low_24h'']"

definition percentage_fields :: "string list" where
  "percentage_fields = [''price_change_percentage_24h'', ''market_cap_change_percentage_24h'']"

definition field_validator :: "string \<Rightarrow> cval \<Rightarrow> string + cval" where
  "field_validator f c =
     (if f = ''symbol'' then
        (case c of CStr s \<Rightarrow> map_sum id CStr (validate_symbol s) | _ \<Rightarrow> Inr c)
      else if f \<in> set positive_fields then
        (case c of
           CInt n \<Rightarrow> map_sum id CInt (validate_positive_values n)
         | CFloat x \<Rightarrow> map_sum id CFloat (validate_positive_values x)
         | CNegInf \<Rightarrow> Inl ''Price and volume values must be positive''
         | _ \<Rightarrow> Inr c)
      else if f = ''market_cap_rank'' then
        (case c of CInt n \<Rightarrow> map_sum id CInt (validate_rank n) | _ \<Rightarrow> Inr c)
      else if f \<in> set percentage_fields then
        (case c of
           CFloat x \<Rightarrow> map_sum id CFloat (validate_percentage x)
         | CInf \<Rightarrow> Inl ''Percentage change seems unreasonable''
         | CNegInf \<Rightarrow> Inl ''Percentage change seems unreasonable''
         | _ \<Rightarrow> Inr c)
      else Inr c)"

subsection \<open>Validating one record\<close>

text \<open>
  One entry of pydantic's \<^verbatim>\<open>e.errors()\<close>: the field (\<^verbatim>\<open>loc\<close>), the offending input
  and the message. A missing required field reports the whole record as its input. A
  validator's \<^verbatim>\<open>ValueError\<close> is reported with the prefix \<^verbatim>\<open>Value error, \<close>.
\<close>

record verror =
  err_loc :: string
  err_input :: pyval
  err_msg :: string

fun is_optional :: "annotation \<Rightarrow> bool" where
  "is_optional (TOptional a) = True"
| "is_optional a = False"

definition validate_field :: "library \<Rightarrow> raw_record \<Rightarrow> string \<times> annotation \<Rightarrow> verror + cval" where
  "validate_field L r fa =
     (case map_of r (fst fa) of
        None \<Rightarrow>
          if is_optional (snd fa) then Inr CNone
          else Inl \<lparr>err_loc = fst fa, err_input = PDict r, err_msg = ''Field required''\<rparr>
      | Some v \<Rightarrow>
          (case coerce L (snd fa) v of
             Inl m \<Rightarrow> Inl \<lparr>err_loc = fst fa, err_input = v, err_msg = m\<rparr>
           | Inr c \<Rightarrow>
               (case field_validator (fst fa) c of
                  Inl m \<Rightarrow> Inl \<lparr>err_loc = fst fa, err_input = v, err_msg = ''Value error, '' @ m\<rparr>
                | Inr c' \<Rightarrow> Inr c')))"

fun lefts :: "('a + 'b) list \<Rightarrow> 'a list" where
  "lefts [] = []"
| "lefts (Inl a # xs) = a # lefts xs"
| "lefts (Inr b # xs) = lefts xs"

fun rights :: "('a + 'b) list \<Rightarrow> 'b list" where
  "rights [] = []"
| "rights (Inl a # xs) = rights xs"
| "rights (Inr b # xs) = b # rights xs"

text \<open>
  Every field is validated, whatever the others did; the errors are collected in field order.
  Keys of the record that are no field of the class are not looked at
  (\<^verbatim>\<open>extra = "ignore"\<close>).
\<close>

definition schema_errors :: "library \<Rightarrow> raw_record \<Rightarrow> verror list" where
  "schema_errors L r = lefts (map (validate_field L r) CryptoPrice_fields)"

text \<open>
  \<^verbatim>\<open>CryptoPrice.model_validate(record)\<close>: the model (field name and coerced value) or
  the \<^verbatim>\<open>ValidationError\<close> with its errors.
\<close>

definition model_validate :: "library \<Rightarrow> raw_record \<Rightarrow> verror list + (string \<times> cval) list" where
  "model_validate L r =
     (let results = map (validate_field L r) CryptoPrice_fields
      in if lefts results = [] then Inr (zip (map fst CryptoPrice_fields) (rights results))
         else Inl (lefts results))"

section \<open>The validator: assets.py, validate_crypto_data_asset\<close>

text \<open>
  One line of \<^verbatim>\<open>error_details\<close>, the f-string
  \<^verbatim>\<open>Field '{field}': {value} - {message}\<close>, kept as its three interpolated parts.
\<close>

datatype detail = Detail string pyval string

definition error_details :: "verror list \<Rightarrow> detail list" where
  "error_details es = map (\<lambda>e. Detail (err_loc e) (err_input e) (err_msg e)) es"

record rejection =
  record_index :: nat
  record_data :: raw_record
  errors :: "detail list"

text \<open>
  The loop of lines 321 to 345 over \<^verbatim>\<open>enumerate(raw_data)\<close>: the index, the records
  still to come, and the two lists built so far.
\<close>

fun validate_loop ::
  "library \<Rightarrow> nat \<Rightarrow> raw_record list \<Rightarrow> raw_record list \<times> rejection list
     \<Rightarrow> raw_record list \<times> rejection list" where
  "validate_loop L i [] acc = acc"
| "validate_loop L i (r # rest) (valid_records, invalid_records) =
     (case model_validate L r of
        Inr validated_record \<Rightarrow>
          validate_loop L (Suc i) rest (valid_records @ [r], invalid_records)
      | Inl es \<Rightarrow>
          validate_loop L (Suc i) rest
            (valid_records,
             invalid_records @ [\<lparr>record_index = i, record_data = r, errors = error_details es\<rparr>]))"

definition validate_records :: "library \<Rightarrow> raw_record list \<Rightarrow> raw_record list \<times> rejection list" where
  "validate_records L raw_data = validate_loop L 0 raw_data ([], [])"

text \<open>Line 352: \<^verbatim>\<open>(len(valid_records)/total_records)*100\<close>, Python's true division.\<close>

definition success_rate :: "nat \<Rightarrow> nat \<Rightarrow> py_error + real" where
  "success_rate n_valid total_records =
     (if total_records = 0 then Inl ZeroDivisionError
      else Inr (real n_valid / real total_records * 100))"

text \<open>Whether \<^verbatim>\<open>f"{v:,.2f}"\<close> formats the value (line 359): numbers only.\<close>

fun format_2f :: "pyval \<Rightarrow> bool" where
  "format_2f (PInt n) = True"
| "format_2f (PFloat x) = True"
| "format_2f PNaN = True"
| "format_2f PInf = True"
| "format_2f PNegInf = True"
| "format_2f (PBool b) = True"
| "format_2f v = False"

text \<open>
  The body of the asset once the source is chosen: the loop, the summary lines, the sample
  line for the first valid record, and the valid records as the result. The rejection list is
  only logged.
\<close>

definition validate_batch :: "library \<Rightarrow> raw_record list \<Rightarrow> py_error + raw_record list" where
  "validate_batch L raw_data =
     (let total_records = length raw_data;
          valid_records = fst (validate_records L raw_data)
      in case success_rate (length valid_records) total_records of
           Inl e \<Rightarrow> Inl e
         | Inr rate \<Rightarrow>
             (case valid_records of
                [] \<Rightarrow> Inr valid_records
              | sample # others \<Rightarrow>
                  if format_2f (get sample ''current_price'' (PInt 0)) then Inr valid_records
                  else Inl FormatError))"

definition validate_crypto_data_asset ::
  "library \<Rightarrow> raw_record list option \<Rightarrow> raw_record list option \<Rightarrow> py_error + raw_record list" where
  "validate_crypto_data_asset L fetch_crypto_data generate_test_crypto_data =
     (case fetch_crypto_data of
        Some raw_data \<Rightarrow> validate_batch L raw_data
      | None \<Rightarrow>
          (case generate_test_crypto_data of
             Some raw_data \<Rightarrow> validate_batch L raw_data
           | None \<Rightarrow> Inl (ValueError ''No data provided for validation'')))"

section \<open>The storage step: assets.py, store_validated_crypto_data\<close>

subsection \<open>The data frame\<close>

text \<open>
  \<^verbatim>\<open>pd.DataFrame(list_of_dicts)\<close>: the columns are the keys of the records in the order
  of their first appearance; a record that lacks a key gets NaN in that column. A cell is
  \<open>None\<close> for NaN and \<open>Some v\<close> for a value; the frame keeps its number of rows and its
  columns, each with one cell per record.
\<close>

type_synonym cell = "pyval option"

record frame =
  n_rows :: nat
  columns :: "(string \<times> cell list) list"

fun add_keys :: "string list \<Rightarrow> string list \<Rightarrow> string list" where
  "add_keys cols [] = cols"
| "add_keys cols (k # ks) = add_keys (if k \<in> set cols then cols else cols @ [k]) ks"

fun df_columns :: "string list \<Rightarrow> raw_record list \<Rightarrow> string list" where
  "df_columns cols [] = cols"
| "df_columns cols (r # rs) = df_columns (add_keys cols (map fst r)) rs"

definition DataFrame :: "raw_record list \<Rightarrow> frame" where
  "DataFrame data =
     \<lparr>n_rows = length data,
      columns = map (\<lambda>c. (c, map (\<lambda>r. map_of r c) data)) (df_columns [] data)\<rparr>"

text \<open>
  What the step leaves to pandas and DuckDB is a parameter: which columns pandas gives the
  \<^verbatim>\<open>object\<close> dtype; which timestamp \<^verbatim>\<open>pd.to_datetime(errors="coerce")\<close> reads from a
  value that is neither missing nor the empty string (\<open>None\<close> is NaT; the column is passed
  too, since pandas guesses one format for a whole column and blanks what does not follow
  it); whether DuckDB converts the frame's values to the types of the table's columns; and
  whether the log lines after the insert can format the first three rows of the table.
  A timestamp is its wall-clock fields and its UTC offset in minutes, if the text had one.
\<close>

record timestamp =
  ts_year :: nat
  ts_month :: nat
  ts_day :: nat
  ts_hour :: nat
  ts_minute :: nat
  ts_second :: nat
  ts_offset :: "int option"

datatype sqltype = VARCHAR | DOUBLE | BIGINT | INTEGER

record backend =
  object_dtype :: "cell list \<Rightarrow> bool"
  to_timestamp :: "cell list \<Rightarrow> pyval \<Rightarrow> timestamp option"
  db_converts :: "(string \<times> sqltype) list \<Rightarrow> frame \<Rightarrow> bool"
  sample_formats :: "cell list list \<Rightarrow> bool"

text \<open>Lines 419 to 421: \<^verbatim>\<open>fillna('')\<close> on the object columns. None and NaN are both NA.\<close>

fun isna :: "cell \<Rightarrow> bool" where
  "isna None = True"
| "isna (Some PNone) = True"
| "isna (Some PNaN) = True"
| "isna (Some v) = False"

definition fillna :: "pyval \<Rightarrow> cell list \<Rightarrow> cell list" where
  "fillna v cells = map (\<lambda>c. if isna c then Some v else c) cells"

definition fill_object_columns :: "backend \<Rightarrow> frame \<Rightarrow> frame" where
  "fill_object_columns B df =
     df\<lparr>columns :=
          map (\<lambda>(col, cells). (col, if object_dtype B cells then fillna (PStr []) cells else cells))
            (columns df)\<rparr>"

text \<open>
  Lines 425 to 431: each of the four date columns that the frame has is parsed and written
  back as text, \<^verbatim>\<open>strftime('%Y-%m-%d %H:%M:%S')\<close>, NaT becoming the empty string.
  When the timestamps read from one column do not all have the same UTC offset, pandas gives
  no datetime column and the step raises (at \<^verbatim>\<open>to_datetime\<close> or at the \<^verbatim>\<open>.dt\<close>
  accessor, by version), before the database is opened.
\<close>

definition datetime_cols :: "string list" where
  "datetime_cols = [''ath_date'', ''atl_date'', ''last_updated'', ''fetched_at'']"

fun pd_to_datetime :: "backend \<Rightarrow> cell list \<Rightarrow> cell \<Rightarrow> timestamp option" where
  "pd_to_datetime B cells None = None"
| "pd_to_datetime B cells (Some PNone) = None"
| "pd_to_datetime B cells (Some PNaN) = None"
| "pd_to_datetime B cells (Some (PStr [])) = None"
| "pd_to_datetime B cells (Some v) = to_timestamp B cells v"

definition digit :: "nat \<Rightarrow> char" where
  "digit d = char_of (48 + d)"

fun decimal :: "nat \<Rightarrow> string" where
  "decimal n = (if n < 10 then [digit n] else decimal (n div 10) @ [digit (n mod 10)])"

definition zero_padded :: "nat \<Rightarrow> nat \<Rightarrow> string" where
  "zero_padded w n = replicate (w - length (decimal n)) (CHR ''0'') @ decimal n"

definition strftime :: "timestamp \<Rightarrow> string" where
  "strftime t =
     zero_padded 4 (ts_year t) @ ''-'' @ zero_padded 2 (ts_month t) @ ''-'' @
     zero_padded 2 (ts_day t) @ '' '' @ zero_padded 2 (ts_hour t) @ '':'' @
     zero_padded 2 (ts_minute t) @ '':'' @ zero_padded 2 (ts_second t)"

definition datetime_text :: "backend \<Rightarrow> cell list \<Rightarrow> cell \<Rightarrow> cell" where
  "datetime_text B cells c =
     (case pd_to_datetime B cells c of None \<Rightarrow> Some (PStr []) | Some t \<Rightarrow> Some (PStr (strftime t)))"

definition mixed_offsets :: "backend \<Rightarrow> cell list \<Rightarrow> bool" where
  "mixed_offsets B cells =
     (1 < length (remdups (map ts_offset (List.map_filter (pd_to_datetime B cells) cells))))"

definition set_column :: "string \<Rightarrow> cell list \<Rightarrow> frame \<Rightarrow> frame" where
  "set_column col new df =
     df\<lparr>columns := map (\<lambda>(c, cells). if c = col then (c, new) else (c, cells)) (columns df)\<rparr>"

text \<open>The loop \<^verbatim>\<open>for col in datetime_cols: if col in df.columns: ...\<close>\<close>

fun convert_datetime_columns :: "backend \<Rightarrow> string list \<Rightarrow> frame \<Rightarrow> py_error + frame" where
  "convert_datetime_columns B [] df = Inr df"
| "convert_datetime_columns B (col # cols) df =
     (case map_of (columns df) col of
        None \<Rightarrow> convert_datetime_columns B cols df
      | Some cells \<Rightarrow>
          if mixed_offsets B cells then Inl DatetimeError
          else convert_datetime_columns B cols
                 (set_column col (map (datetime_text B cells) cells) df))"

definition cleaned_frame :: "backend \<Rightarrow> raw_record list \<Rightarrow> py_error + frame" where
  "cleaned_frame B data =
     convert_datetime_columns B datetime_cols (fill_object_columns B (DataFrame data))"

subsection \<open>The table\<close>

text \<open>
  The database file holds the table \<^verbatim>\<open>validated_crypto_data\<close> or nothing yet: the state
  is the table, if there is one. Rows keep the frame's cells in column position.
\<close>

record table =
  schema :: "(string \<times> sqltype) list"
  table_rows :: "cell list list"

type_synonym database = "table option"

definition table_schema :: "(string \<times> sqltype) list" where
  "table_schema =
     [(''id'', VARCHAR), (''symbol'', VARCHAR), (''name'', VARCHAR), (''image'', VARCHAR),
      (''current_price'', DOUBLE), (''market_cap'', BIGINT), (''market_cap_rank'', INTEGER),
      (''fully_diluted_valuation'', DOUBLE), (''total_volume'', BIGINT),
      (''high_24h'', DOUBLE), (''low_24h'', DOUBLE),
      (''price_change_24h'', DOUBLE), (''price_change_percentage_24h'', DOUBLE),
      (''market_cap_change_24h'', DOUBLE), (''market_cap_change_percentage_24h'', DOUBLE),
      (''circulating_supply'', DOUBLE), (''total_supply'', DOUBLE), (''max_supply'', DOUBLE),
      (''ath'', DOUBLE), (''ath_change_percentage'', DOUBLE), (''ath_date'', VARCHAR),
      (''atl'', DOUBLE), (''atl_change_percentage'', DOUBLE), (''atl_date'', VARCHAR),
      (''last_updated'', VARCHAR), (''fetched_at'', VARCHAR), (''roi'', VARCHAR)]"

text \<open>\<^verbatim>\<open>CREATE TABLE IF NOT EXISTS\<close>: a table that exists is left as it is.\<close>

definition create_table_if_not_exists :: "database \<Rightarrow> table" where
  "create_table_if_not_exists db =
     (case db of None \<Rightarrow> \<lparr>schema = table_schema, table_rows = []\<rparr> | Some t \<Rightarrow> t)"

definition frame_rows :: "frame \<Rightarrow> cell list list" where
  "frame_rows df = map (\<lambda>i. map (\<lambda>(col, cells). cells ! i) (columns df)) [0..<n_rows df]"

text \<open>
  \<^verbatim>\<open>INSERT INTO validated_crypto_data SELECT * FROM df\<close>: the frame's columns are taken by
  position, so there must be as many as the table has; the statement adds every row or none.
\<close>

definition insert_select_star :: "backend \<Rightarrow> table \<Rightarrow> frame \<Rightarrow> py_error + table" where
  "insert_select_star B t df =
     (if length (columns df) \<noteq> length (schema t) then Inl BinderException
      else if \<not> db_converts B (schema t) df then Inl ConversionException
      else Inr (t\<lparr>table_rows := table_rows t @ frame_rows df\<rparr>))"

definition db_path :: string where
  "db_path = ''data/crypto_data.duckdb''"

text \<open>
  What the function returns: the guard for an empty input returns the \<^verbatim>\<open>Path\<close> object
  (line 406), the end of the function its string (line 498).
\<close>

datatype returned = PosixPath string | PyStr string

text \<open>
  The function on a list of dictionaries (what the validator returns; the
  \<^verbatim>\<open>model_dump\<close> branch of line 409 is for model objects, which it never gets): the
  result or the exception, and the table afterwards. The frame is built and cleaned before
  the database is opened, so an exception there leaves the state as it was. Failures of the
  file system are not modelled.
\<close>

definition store_validated_crypto_data ::
  "backend \<Rightarrow> raw_record list \<Rightarrow> database \<Rightarrow> (py_error + returned) \<times> database" where
  "store_validated_crypto_data B data db =
     (if data = [] then (Inr (PosixPath db_path), db)
      else
        case cleaned_frame B data of
          Inl e \<Rightarrow> (Inl e, db)
        | Inr df \<Rightarrow>
            let t = create_table_if_not_exists db
            in case insert_select_star B t df of
                 Inl e \<Rightarrow> (Inl e, Some t)
               | Inr t' \<Rightarrow>
                   if sample_formats B (take 3 (table_rows t')) then (Inr (PyStr db_path), Some t')
                   else (Inl FormatError, Some t'))"

text \<open>
  Run as the dagster asset, the function's result is checked against its annotation
  \<^verbatim>\<open>-> str\<close>: a \<^verbatim>\<open>Path\<close> is no \<^verbatim>\<open>str\<close>, and the step fails.
\<close>

fun check_output_type :: "returned \<Rightarrow> py_error + string" where
  "check_output_type (PyStr s) = Inr s"
| "check_output_type (PosixPath p) = Inl DagsterTypeCheckDidNotPass"

definition store_step ::
  "backend \<Rightarrow> raw_record list \<Rightarrow> database \<Rightarrow> (py_error + string) \<times> database" where
  "store_step B data db =
     (case store_validated_crypto_data B data db of
        (Inl e, db') \<Rightarrow> (Inl e, db')
      | (Inr v, db') \<Rightarrow> (check_output_type v, db'))"

text \<open>
  Reading the table back: the values of one named column, row by row
  (\<^verbatim>\<open>SELECT col FROM validated_crypto_data\<close>).
\<close>

fun index_of :: "string \<Rightarrow> string list \<Rightarrow> nat option" where
  "index_of c [] = None"
| "index_of c (x # xs) = (if x = c then Some 0 else map_option Suc (index_of c xs))"

definition select_column :: "table \<Rightarrow> string \<Rightarrow> cell list" where
  "select_column t c =
     (case index_of c (map fst (schema t)) of
        None \<Rightarrow> []
      | Some i \<Rightarrow> map (\<lambda>row. if i < length row then row ! i else None) (table_rows t))"

section \<open>Reference notions and sample inputs\<close>

text \<open>
  The language of the symbol pattern, said without the matcher: a non-empty run of lower-case
  letters and digits, optionally followed by the one newline that Python's \<^verbatim>\<open>$\<close> allows.
\<close>

definition lowercase_alnum :: "char set" where
  "lowercase_alnum = set ''abcdefghijklmnopqrstuvwxyz0123456789''"

definition symbol_language :: "string set" where
  "symbol_language =
     {v. \<exists>body. body \<noteq> [] \<and> set body \<subseteq> lowercase_alnum \<and> (v = body \<or> v = body @ [CHR 0x0A])}"

text \<open>
  The canonical date text \<^verbatim>\<open>YYYY-MM-DD HH:MM:SS\<close>: in the pattern a \<^verbatim>\<open>D\<close> stands for
  a decimal digit and every other character for itself.
\<close>

definition is_digit :: "char \<Rightarrow> bool" where
  "is_digit c = (c \<in> set ''0123456789'')"

fun shaped :: "string \<Rightarrow> string \<Rightarrow> bool" where
  "shaped [] [] = True"
| "shaped (p # ps) (c # cs) = ((if p = CHR ''D'' then is_digit c else c = p) \<and> shaped ps cs)"
| "shaped ps cs = False"

definition canonical_text :: "string \<Rightarrow> bool" where
  "canonical_text s = shaped ''DDDD-DD-DD DD:DD:DD'' s"

text \<open>
  The cells of one column after the \<^verbatim>\<open>fillna\<close> of the object columns: the values of that
  key in the records (NaN where a record lacks the key), with the empty string for NA if pandas
  gave the column the object dtype.
\<close>

definition filled_column :: "backend \<Rightarrow> raw_record list \<Rightarrow> string \<Rightarrow> cell list" where
  "filled_column B data col =
     (let raw = map (\<lambda>r. map_of r col) data
      in if object_dtype B raw then fillna (PStr []) raw else raw)"

text \<open>
  Dictionary assignment and deletion, \<^verbatim>\<open>r[k] = v\<close> and \<^verbatim>\<open>del r[k]\<close>, to build the
  sample records from one another.
\<close>

fun dict_set :: "raw_record \<Rightarrow> string \<Rightarrow> pyval \<Rightarrow> raw_record" where
  "dict_set [] k v = [(k, v)]"
| "dict_set ((k', v') # r) k v = (if k' = k then (k, v) # r else (k', v') # dict_set r k v)"

definition dict_del :: "raw_record \<Rightarrow> string \<Rightarrow> raw_record" where
  "dict_del r k = filter (\<lambda>kv. fst kv \<noteq> k) r"

text \<open>
  A record as the API sends it (every key present, in the API's order, \<^verbatim>\<open>roi\<close> null)
  with the \<^verbatim>\<open>fetched_at\<close> stamp that the fetch adds last.
\<close>

definition btc_record :: raw_record where
  "btc_record =
     [(''id'', PStr ''bitcoin''), (''symbol'', PStr ''btc''), (''name'', PStr ''Bitcoin''),
      (''image'', PStr ''https://example.org/btc.png''),
      (''current_price'', PFloat 64250.5), (''market_cap'', PInt 1265000000000),
      (''market_cap_rank'', PInt 1), (''fully_diluted_valuation'', PInt 1349000000000),
      (''total_volume'', PInt 31000000000),
      (''high_24h'', PFloat 65010.25), (''low_24h'', PFloat 63120.75),
      (''price_change_24h'', PFloat (- 310.5)), (''price_change_percentage_24h'', PFloat (- 0.48)),
      (''market_cap_change_24h'', PFloat (- 6100000000)),
      (''market_cap_change_percentage_24h'', PFloat (- 0.48)),
      (''circulating_supply'', PFloat 19690000), (''total_supply'', PFloat 21000000),
      (''max_supply'', PFloat 21000000),
      (''ath'', PFloat 73738), (''ath_change_percentage'', PFloat (- 12.9)),
      (''ath_date'', PStr ''2024-03-14T07:10:36.635Z''),
      (''atl'', PFloat 67.81), (''atl_change_percentage'', PFloat 94650.2),
      (''atl_date'', PStr ''2013-07-06T00:00:00.000Z''),
      (''roi'', PNone), (''last_updated'', PStr ''2024-05-30T10:15:42.123Z''),
      (''fetched_at'', PStr ''2024-05-30T10:16:01.250311'')]"

text \<open>
  Variants of the sample: one with an upper-case symbol and a negative rank; one whose id and
  name are empty strings; one whose market capitalisation is negative and fractional; one
  without the optional key \<^verbatim>\<open>roi\<close> (the synthetic generator drops the keys whose value
  is None); one with a key that is no field of the schema; one with a nested \<^verbatim>\<open>roi\<close>;
  one whose price is NaN.
\<close>

definition faulty_record :: raw_record where
  "faulty_record =
     dict_set (dict_set btc_record ''symbol'' (PStr ''BTC'')) ''market_cap_rank'' (PInt (- 1))"

definition anonymous_record :: raw_record where
  "anonymous_record = dict_set (dict_set btc_record ''id'' (PStr [])) ''name'' (PStr [])"

definition fractional_cap_record :: raw_record where
  "fractional_cap_record = dict_set btc_record ''market_cap'' (PFloat (- 3 / 2))"

definition no_roi_record :: raw_record where
  "no_roi_record = dict_del btc_record ''roi''"

definition extra_key_record :: raw_record where
  "extra_key_record = dict_set btc_record ''sparkline'' (PBool False)"

definition nested_roi_record :: raw_record where
  "nested_roi_record =
     dict_set btc_record ''roi'' (PDict [(''percentage'', PFloat 12.5), (''currency'', PStr ''usd'')])"

definition nan_price_record :: raw_record where
  "nan_price_record = dict_set btc_record ''current_price'' PNaN"

text \<open>
  Instances of the parameters for the concrete evaluations: a pydantic that parses no string
  as a number; and pandas and DuckDB as they act on the sample frames: a column that holds a
  string, a dictionary, a list or None has the object dtype, the four date texts of the sample
  are read as the timestamps they spell (the three of the API in UTC, the fetch stamp without
  offset), every frame converts and every row formats.
\<close>

definition strict_library :: library where
  "strict_library = \<lparr>str_as_int = (\<lambda>s. None), str_as_float = (\<lambda>s. None)\<rparr>"

fun object_value :: "cell \<Rightarrow> bool" where
  "object_value (Some (PStr s)) = True"
| "object_value (Some (PDict d)) = True"
| "object_value (Some (PList l)) = True"
| "object_value (Some PNone) = True"
| "object_value c = False"

definition sample_dates :: "(pyval \<times> timestamp) list" where
  "sample_dates =
     [(PStr ''2024-03-14T07:10:36.635Z'',
       \<lparr>ts_year = 2024, ts_month = 3, ts_day = 14, ts_hour = 7, ts_minute = 10, ts_second = 36,
        ts_offset = Some 0\<rparr>),
      (PStr ''2013-07-06T00:00:00.000Z'',
       \<lparr>ts_year = 2013, ts_month = 7, ts_day = 6, ts_hour = 0, ts_minute = 0, ts_second = 0,
        ts_offset = Some 0\<rparr>),
      (PStr ''2024-05-30T10:15:42.123Z'',
       \<lparr>ts_year = 2024, ts_month = 5, ts_day = 30, ts_hour = 10, ts_minute = 15, ts_second = 42,
        ts_offset = Some 0\<rparr>),
      (PStr ''2024-05-30T10:16:01.250311'',
       \<lparr>ts_year = 2024, ts_month = 5, ts_day = 30, ts_hour = 10, ts_minute = 16, ts_second = 1,
        ts_offset = None\<rparr>)]"

definition sample_backend :: backend where
  "sample_backend =
     \<lparr>object_dtype = (\<lambda>cells. list_ex object_value cells),
      to_timestamp = (\<lambda>cells v. map_of sample_dates v),
      db_converts = (\<lambda>cols df. True),
      sample_formats = (\<lambda>rows. True)\<rparr>"

section \<open>Facts about the schema\<close>

lemma set_lefts: "set (lefts xs) = {a. Inl a \<in> set xs}"
  by (induction xs rule: lefts.induct) auto

lemma lefts_Nil_iff: "lefts xs = [] \<longleftrightarrow> (\<forall>x\<in>set xs. \<exists>b. x = Inr b)"
  by (induction xs rule: lefts.induct) auto

lemma validate_field_loc: "validate_field L r fa = Inl e \<Longrightarrow> err_loc e = fst fa"
  by (auto simp: validate_field_def split: option.splits sum.splits if_splits)

lemma filter_lefts_distinct:
  assumes "distinct (map fst fs)" and "fa \<in> set fs"
  shows "filter (\<lambda>e. err_loc e = fst fa) (lefts (map (validate_field L r) fs)) =
         (case validate_field L r fa of Inl e \<Rightarrow> [e] | Inr c \<Rightarrow> [])"
  using assms
proof (induction fs)
  case Nil
  then show ?case by simp
next
  case (Cons g fs)
  have other: "filter (\<lambda>e. err_loc e = k) (lefts (map (validate_field L r) gs)) = []"
    if "k \<notin> fst ` set gs" for k gs
    using that
  proof (induction gs)
    case Nil
    then show ?case by simp
  next
    case (Cons h hs)
    then have "k \<noteq> fst h" and "k \<notin> fst ` set hs" by auto
    with Cons.IH show ?case
      by (cases "validate_field L r h") (auto dest: validate_field_loc)
  qed
  show ?case
  proof (cases "fa = g")
    case True
    with Cons.prems have "fst fa \<notin> fst ` set fs" by auto
    from other[OF this] True show ?thesis
      by (cases "validate_field L r g") (auto dest: validate_field_loc)
  next
    case False
    with Cons.prems have mem: "fa \<in> set fs" and ne: "fst g \<noteq> fst fa" by (auto simp: image_iff)
    from Cons.prems have "distinct (map fst fs)" by simp
    from Cons.IH[OF this mem] ne show ?thesis
      by (cases "validate_field L r g") (auto dest: validate_field_loc)
  qed
qed

lemma distinct_fields: "distinct (map fst CryptoPrice_fields)"
  by (simp add: CryptoPrice_fields_def)

lemma errors_at_field:
  "fa \<in> set CryptoPrice_fields \<Longrightarrow>
   filter (\<lambda>e. err_loc e = fst fa) (schema_errors L r) =
     (case validate_field L r fa of Inl e \<Rightarrow> [e] | Inr c \<Rightarrow> [])"
  unfolding schema_errors_def by (rule filter_lefts_distinct[OF distinct_fields])

lemma model_fields_gen:
  assumes "lefts (map g fs) = []" and "distinct (map fst fs)" and "fa \<in> set fs"
  shows "\<exists>c. g fa = Inr c \<and> map_of (zip (map fst fs) (rights (map g fs))) (fst fa) = Some c"
  using assms
proof (induction fs)
  case Nil
  then show ?case by simp
next
  case (Cons h fs)
  from Cons.prems(1) obtain c where c: "g h = Inr c" and rest: "lefts (map g fs) = []"
    by (cases "g h") auto
  show ?case
  proof (cases "fa = h")
    case True
    with c show ?thesis by simp
  next
    case False
    with Cons.prems have mem: "fa \<in> set fs" and ne: "fst h \<noteq> fst fa" by (auto simp: image_iff)
    from Cons.prems have "distinct (map fst fs)" by simp
    from Cons.IH[OF rest this mem] c ne show ?thesis by auto
  qed
qed

lemma model_validate_Inr:
  "model_validate L r = Inr m \<longleftrightarrow>
     schema_errors L r = [] \<and>
     m = zip (map fst CryptoPrice_fields) (rights (map (validate_field L r) CryptoPrice_fields))"
  by (auto simp: model_validate_def schema_errors_def Let_def)

lemma model_validate_Inl:
  "model_validate L r = Inl es \<longleftrightarrow> schema_errors L r \<noteq> [] \<and> es = schema_errors L r"
  by (auto simp: model_validate_def schema_errors_def Let_def)

lemma model_field:
  assumes "model_validate L r = Inr m" and "fa \<in> set CryptoPrice_fields"
  shows "\<exists>c. validate_field L r fa = Inr c \<and> map_of m (fst fa) = Some c"
proof -
  from assms(1) have e: "lefts (map (validate_field L r) CryptoPrice_fields) = []"
    and m: "m = zip (map fst CryptoPrice_fields) (rights (map (validate_field L r) CryptoPrice_fields))"
    by (simp_all add: model_validate_Inr schema_errors_def)
  from model_fields_gen[OF e distinct_fields assms(2)] m show ?thesis by simp
qed


lemma symbol_char_iff: "symbol_char c \<longleftrightarrow> c \<in> lowercase_alnum"
proof
  assume "c \<in> lowercase_alnum"
  then show "symbol_char c"
    unfolding lowercase_alnum_def by (auto simp: symbol_char_def)
next
  assume a: "symbol_char c"
  define n where "n = (of_char c :: nat)"
  have c: "c = char_of n" by (simp add: n_def)
  from a have "(97 \<le> n \<and> n \<le> 122) \<or> (48 \<le> n \<and> n \<le> 57)"
    by (simp add: symbol_char_def n_def Let_def)
  then have "n \<in> {122,121,120,119,118,117,116,115,114,113,112,111,110,109,108,107,106,105,
      104,103,102,101,100,99,98,97,57,56,55,54,53,52,51,50,49,48}"
    by simp presburger
  then show "c \<in> lowercase_alnum"
    unfolding c lowercase_alnum_def by (elim insertE emptyE) (simp_all add: char_of_def bit_0)
qed


lemma re_match_symbol_iff: "re_match_symbol v \<longleftrightarrow> v \<in> symbol_language"
proof
  assume m: "re_match_symbol v"
  define body where "body = takeWhile symbol_char v"
  define rest where "rest = dropWhile symbol_char v"
  have v: "v = body @ rest" by (simp add: body_def rest_def)
  have cls: "set body \<subseteq> lowercase_alnum"
    using set_takeWhileD[of _ symbol_char v] by (auto simp: body_def symbol_char_iff)
  from m have "body \<noteq> []" and "rest = [] \<or> rest = [CHR 0x0A]"
    by (simp_all add: re_match_symbol_def body_def rest_def Let_def)
  with v cls show "v \<in> symbol_language"
    unfolding symbol_language_def by auto
next
  assume "v \<in> symbol_language"
  then obtain body where b: "body \<noteq> []" "set body \<subseteq> lowercase_alnum"
    and v: "v = body \<or> v = body @ [CHR 0x0A]"
    unfolding symbol_language_def by blast
  have all: "\<forall>c\<in>set body. symbol_char c" using b(2) by (auto simp: symbol_char_iff)
  have nl: "\<not> symbol_char (CHR 0x0A)" by (simp add: symbol_char_def)
  from all have tw: "takeWhile symbol_char body = body" and dw: "dropWhile symbol_char body = []"
    by (simp_all add: takeWhile_eq_all_conv)
  from all nl have tw2: "takeWhile symbol_char (body @ [CHR 0x0A]) = body"
    and dw2: "dropWhile symbol_char (body @ [CHR 0x0A]) = [CHR 0x0A]"
    by (simp_all add: takeWhile_append2 dropWhile_append2)
  from v show "re_match_symbol v"
  proof
    assume "v = body"
    with tw dw have "takeWhile symbol_char v = body" "dropWhile symbol_char v = []" by auto
    with b(1) show ?thesis by (simp add: re_match_symbol_def)
  next
    assume "v = body @ [CHR 0x0A]"
    with tw2 dw2 have "takeWhile symbol_char v = body" "dropWhile symbol_char v = [CHR 0x0A]"
      by auto
    with b(1) show ?thesis by (simp add: re_match_symbol_def)
  qed
qed

lemma coerce_str_result: "coerce L TStr v = Inr c \<Longrightarrow> \<exists>s. v = PStr s \<and> c = CStr s"
  by (cases v) auto

lemma error_rejects:
  assumes "fa \<in> set CryptoPrice_fields" and "validate_field L r fa = Inl e"
  shows "e \<in> set (schema_errors L r)" and "model_validate L r = Inl (schema_errors L r)"
proof -
  from errors_at_field[OF assms(1), of L r] assms(2)
  have "filter (\<lambda>e. err_loc e = fst fa) (schema_errors L r) = [e]" by simp
  then have "e \<in> set (filter (\<lambda>e. err_loc e = fst fa) (schema_errors L r))" by simp
  then show mem: "e \<in> set (schema_errors L r)" by simp
  then have "schema_errors L r \<noteq> []" by auto
  then show "model_validate L r = Inl (schema_errors L r)" by (simp add: model_validate_Inl)
qed

lemma str_field_string:
  assumes "validate_field L r (f, TStr) = Inr c"
  shows "\<exists>s. map_of r f = Some (PStr s) \<and> field_validator f (CStr s) = Inr c"
proof -
  from assms obtain v c0 where v: "map_of r f = Some v" and c0: "coerce L TStr v = Inr c0"
    and fv: "field_validator f c0 = Inr c"
    by (auto simp: validate_field_def split: option.splits sum.splits)
  from coerce_str_result[OF c0] v fv show ?thesis by auto
qed

lemma btc_record_valid: "schema_errors strict_library btc_record = []"
  by code_simp

lemma btc_record_model:
  "model_validate strict_library btc_record =
     Inr (projr (model_validate strict_library btc_record))"
  using btc_record_valid by (simp add: model_validate_def schema_errors_def Let_def)

section \<open>Facts about the validator\<close>

lemma zip_upt_nth: "zip [0..<length rs] rs = map (\<lambda>j. (j, rs ! j)) [0..<length rs]"
  by (rule nth_equalityI) auto

lemma validate_loop_eq:
  "validate_loop L i rs (vs, bad) =
     (vs @ filter (\<lambda>r. schema_errors L r = []) rs,
      bad @ map (\<lambda>(j, r). \<lparr>record_index = j, record_data = r,
                           errors = error_details (schema_errors L r)\<rparr>)
              (filter (\<lambda>(j, r). schema_errors L r \<noteq> []) (zip [i..<i + length rs] rs)))"
proof (induction rs arbitrary: i vs bad)
  case Nil
  then show ?case by simp
next
  case (Cons r rs)
  have "i < i + length (r # rs)" by simp
  from upt_conv_Cons[OF this]
  have upt: "[i..<i + length (r # rs)] = i # [Suc i..<Suc i + length rs]" by simp
  show ?case
  proof (cases "model_validate L r")
    case (Inl es)
    then have "schema_errors L r \<noteq> []" and "es = schema_errors L r"
      by (simp_all add: model_validate_Inl)
    with Inl Cons.IH[of "Suc i"] show ?thesis
      unfolding upt by simp
  next
    case (Inr m)
    then have "schema_errors L r = []" by (simp add: model_validate_Inr)
    with Inr Cons.IH[of "Suc i"] show ?thesis
      unfolding upt by simp
  qed
qed

lemma validate_records_eq:
  "validate_records L batch =
     (filter (\<lambda>r. schema_errors L r = []) batch,
      map (\<lambda>j. \<lparr>record_index = j, record_data = batch ! j,
                  errors = error_details (schema_errors L (batch ! j))\<rparr>)
        (filter (\<lambda>j. schema_errors L (batch ! j) \<noteq> []) [0..<length batch]))"
  unfolding validate_records_def validate_loop_eq
  by (simp add: zip_upt_nth filter_map comp_def)

lemma map_err_loc_lefts:
  "map err_loc (lefts (map (validate_field L r) fs)) =
     map fst (filter (\<lambda>fa. isl (validate_field L r fa)) fs)"
proof (induction fs)
  case Nil
  then show ?case by simp
next
  case (Cons fa fs)
  then show ?case
    by (cases "validate_field L r fa") (auto dest: validate_field_loc)
qed

lemma validate_batch_cases:
  "batch \<noteq> [] \<Longrightarrow>
   validate_batch L batch = Inr (fst (validate_records L batch)) \<or>
   validate_batch L batch = Inl FormatError"
  by (auto simp: validate_batch_def success_rate_def Let_def split: list.splits)

lemma rejected_in_batch:
  assumes "schema_errors L r \<noteq> []" and "j < length batch" and "batch ! j = r"
  shows "\<lparr>record_index = j, record_data = r, errors = error_details (schema_errors L r)\<rparr>
           \<in> set (snd (validate_records L batch))"
  using assms by (auto simp: validate_records_eq image_iff intro!: bexI[of _ j])

section \<open>The claims about the schema\<close>

text \<open>
  Claim C8. A symbol passes \<open>validate_symbol\<close> exactly when it matches the pattern
  \<^verbatim>\<open>^[a-z0-9]+$\<close> as Python's \<^verbatim>\<open>re.match\<close> reads it, that is, when it lies in
  \<open>symbol_language\<close>; any other string fails with the symbol-format message, and in a
  record whose symbol is a string the only diagnostic on the field \<^verbatim>\<open>symbol\<close> is that
  violation. \<^verbatim>\<open>btc\<close> passes; \<^verbatim>\<open>BTC\<close> and \<^verbatim>\<open>btc-1\<close> fail with the symbol-format
  violation.
\<close>

theorem symbol_valid_iff_pattern:
  "(validate_symbol v = Inr v \<longleftrightarrow> v \<in> symbol_language) \<and>
   (v \<notin> symbol_language \<longrightarrow> validate_symbol v = Inl ''Symbol must be lowercase alphanumeric'') \<and>
   (map_of r ''symbol'' = Some (PStr v) \<longrightarrow>
      filter (\<lambda>e. err_loc e = ''symbol'') (schema_errors L r) =
        (if v \<in> symbol_language then []
         else [\<lparr>err_loc = ''symbol'', err_input = PStr v,
                err_msg = ''Value error, Symbol must be lowercase alphanumeric''\<rparr>])) \<and>
   validate_symbol ''btc'' = Inr ''btc'' \<and>
   validate_symbol ''BTC'' = Inl ''Symbol must be lowercase alphanumeric'' \<and>
   validate_symbol ''btc-1'' = Inl ''Symbol must be lowercase alphanumeric''"
proof -
  have a: "validate_symbol v = Inr v \<longleftrightarrow> v \<in> symbol_language"
    by (simp add: validate_symbol_def re_match_symbol_iff)
  have b: "v \<notin> symbol_language \<longrightarrow> validate_symbol v = Inl ''Symbol must be lowercase alphanumeric''"
    by (simp add: validate_symbol_def re_match_symbol_iff)
  have mem: "(''symbol'', TStr) \<in> set CryptoPrice_fields"
    by (simp add: CryptoPrice_fields_def)
  have c: "map_of r ''symbol'' = Some (PStr v) \<longrightarrow>
      filter (\<lambda>e. err_loc e = ''symbol'') (schema_errors L r) =
        (if v \<in> symbol_language then []
         else [\<lparr>err_loc = ''symbol'', err_input = PStr v,
                err_msg = ''Value error, Symbol must be lowercase alphanumeric''\<rparr>])"
    using errors_at_field[OF mem, of L r]
    by (simp add: validate_field_def field_validator_def validate_symbol_def re_match_symbol_iff)
  have d: "validate_symbol ''btc'' = Inr ''btc''"
    by (simp add: validate_symbol_def re_match_symbol_def symbol_char_def)
  have e: "validate_symbol ''BTC'' = Inl ''Symbol must be lowercase alphanumeric''"
    by (simp add: validate_symbol_def re_match_symbol_def symbol_char_def)
  have f: "validate_symbol ''btc-1'' = Inl ''Symbol must be lowercase alphanumeric''"
    by (simp add: validate_symbol_def re_match_symbol_def symbol_char_def)
  from a b c d e f show ?thesis by blast
qed

theorem symbol_valid_iff_pattern_witness:
  "validate_symbol ''eth'' = Inr ''eth'' \<and> ''eth'' \<in> symbol_language \<and>
   ''Eth'' \<notin> symbol_language \<and>
   validate_symbol ''Eth'' = Inl ''Symbol must be lowercase alphanumeric'' \<and>
   map_of (dict_set btc_record ''symbol'' (PStr ''Eth'')) ''symbol'' = Some (PStr ''Eth'') \<and>
   filter (\<lambda>e. err_loc e = ''symbol'')
     (schema_errors strict_library (dict_set btc_record ''symbol'' (PStr ''Eth''))) =
     [\<lparr>err_loc = ''symbol'', err_input = PStr ''Eth'',
       err_msg = ''Value error, Symbol must be lowercase alphanumeric''\<rparr>]"
proof -
  have v: "validate_symbol ''eth'' = Inr ''eth''"
    by (simp add: validate_symbol_def re_match_symbol_def symbol_char_def)
  have w: "validate_symbol ''Eth'' = Inl ''Symbol must be lowercase alphanumeric''"
    by (simp add: validate_symbol_def re_match_symbol_def symbol_char_def)
  have m: "map_of (dict_set btc_record ''symbol'' (PStr ''Eth'')) ''symbol'' = Some (PStr ''Eth'')"
    by (simp add: btc_record_def)
  note t1 = symbol_valid_iff_pattern[of "''eth''" btc_record strict_library]
  note t2 = symbol_valid_iff_pattern[of "''Eth''"
      "dict_set btc_record ''symbol'' (PStr ''Eth'')" strict_library]
  from t1 v have in1: "''eth'' \<in> symbol_language" by blast
  from t2 w have in2: "''Eth'' \<notin> symbol_language" by auto
  from t2 m in2 have "filter (\<lambda>e. err_loc e = ''symbol'')
     (schema_errors strict_library (dict_set btc_record ''symbol'' (PStr ''Eth''))) =
     [\<lparr>err_loc = ''symbol'', err_input = PStr ''Eth'',
       err_msg = ''Value error, Symbol must be lowercase alphanumeric''\<rparr>]"
    by simp
  with v w m in1 in2 show ?thesis by blast
qed

text \<open>
  Claim C3, as amended. A record that the schema accepts has a string for each of
  \<^verbatim>\<open>id\<close>, \<^verbatim>\<open>symbol\<close> and \<^verbatim>\<open>name\<close>, and its symbol is non-empty, since it
  matches the pattern. The fields \<^verbatim>\<open>id\<close> and \<^verbatim>\<open>name\<close> are annotated \<^verbatim>\<open>str\<close>
  with no length constraint and no validator, so the schema says nothing about their length.
\<close>

theorem valid_identity_fields:
  assumes "model_validate L r = Inr m"
  shows "(\<exists>s. map_of r ''id'' = Some (PStr s) \<and> map_of m ''id'' = Some (CStr s)) \<and>
         (\<exists>s. map_of r ''symbol'' = Some (PStr s) \<and> s \<noteq> [] \<and> s \<in> symbol_language) \<and>
         (\<exists>s. map_of r ''name'' = Some (PStr s) \<and> map_of m ''name'' = Some (CStr s))"
proof -
  have m1: "(''id'', TStr) \<in> set CryptoPrice_fields"
    and m2: "(''symbol'', TStr) \<in> set CryptoPrice_fields"
    and m3: "(''name'', TStr) \<in> set CryptoPrice_fields"
    by (simp_all add: CryptoPrice_fields_def)
  from model_field[OF assms m1] obtain c1 where
    c1: "validate_field L r (''id'', TStr) = Inr c1" "map_of m ''id'' = Some c1" by auto
  from str_field_string[OF c1(1)] c1(2)
  have a: "\<exists>s. map_of r ''id'' = Some (PStr s) \<and> map_of m ''id'' = Some (CStr s)"
    by (auto simp: field_validator_def positive_fields_def percentage_fields_def)
  from model_field[OF assms m2] obtain c2 where
    c2: "validate_field L r (''symbol'', TStr) = Inr c2" by auto
  from str_field_string[OF c2] obtain s where
    s: "map_of r ''symbol'' = Some (PStr s)" "field_validator ''symbol'' (CStr s) = Inr c2"
    by blast
  from s(2) have "re_match_symbol s"
    by (auto simp: field_validator_def validate_symbol_def split: if_splits)
  then have "s \<in> symbol_language" by (simp add: re_match_symbol_iff)
  moreover from this have "s \<noteq> []" by (auto simp: symbol_language_def)
  ultimately have b: "\<exists>s. map_of r ''symbol'' = Some (PStr s) \<and> s \<noteq> [] \<and> s \<in> symbol_language"
    using s(1) by blast
  from model_field[OF assms m3] obtain c3 where
    c3: "validate_field L r (''name'', TStr) = Inr c3" "map_of m ''name'' = Some c3" by auto
  from str_field_string[OF c3(1)] c3(2)
  have c: "\<exists>s. map_of r ''name'' = Some (PStr s) \<and> map_of m ''name'' = Some (CStr s)"
    by (auto simp: field_validator_def positive_fields_def percentage_fields_def)
  from a b c show ?thesis by (intro conjI)
qed

theorem valid_identity_fields_witness:
  "(\<exists>s. map_of btc_record ''id'' = Some (PStr s) \<and>
        map_of (projr (model_validate strict_library btc_record)) ''id'' = Some (CStr s)) \<and>
   (\<exists>s. map_of btc_record ''symbol'' = Some (PStr s) \<and> s \<noteq> [] \<and> s \<in> symbol_language) \<and>
   (\<exists>s. map_of btc_record ''name'' = Some (PStr s) \<and>
        map_of (projr (model_validate strict_library btc_record)) ''name'' = Some (CStr s))"
  by (rule valid_identity_fields[OF btc_record_model])

text \<open>
  Claim C3 as stated fails: the sample record with the empty string for both
  \<^verbatim>\<open>id\<close> and \<^verbatim>\<open>name\<close> has no schema error, and the validator puts it in the valid
  list.
\<close>

theorem empty_id_and_name_accepted:
  "map_of anonymous_record ''id'' = Some (PStr []) \<and>
   map_of anonymous_record ''name'' = Some (PStr []) \<and>
   schema_errors strict_library anonymous_record = [] \<and>
   \<not> isl (model_validate strict_library anonymous_record) \<and>
   validate_records strict_library [anonymous_record] = ([anonymous_record], [])"
  by code_simp

text \<open>
  Claim C7 (the code departs from it). The validator of the five fields rejects a value only
  when \<^verbatim>\<open>v < 0\<close> holds, and pydantic's float takes NaN: the sample record with a NaN
  price has no schema error, stands in the valid list and is what the asset returns, though
  NaN is not a non-negative number, however pydantic parses numeric strings. The rest of
  the claim holds at the sample: the price
  \<open>-5.0\<close> is rejected with the one diagnostic on \<^verbatim>\<open>current_price\<close>, and the price 0
  is accepted.
\<close>

theorem nan_price_accepted:
  "map_of nan_price_record ''current_price'' = Some PNaN \<and>
   coerce L TFloat PNaN = Inr CNaN \<and>
   field_validator ''current_price'' CNaN = Inr CNaN \<and>
   schema_errors L nan_price_record = [] \<and>
   validate_records L [nan_price_record] = ([nan_price_record], []) \<and>
   validate_crypto_data_asset L (Some [nan_price_record]) None
     = Inr [nan_price_record] \<and>
   schema_errors L (dict_set btc_record ''current_price'' (PFloat (- 5))) =
     [\<lparr>err_loc = ''current_price'', err_input = PFloat (- 5),
       err_msg = ''Value error, Price and volume values must be positive''\<rparr>] \<and>
   schema_errors L (dict_set btc_record ''current_price'' (PFloat 0)) = []"
proof -
  have a: "map_of nan_price_record ''current_price'' = Some PNaN"
    by (simp add: nan_price_record_def btc_record_def)
  have b: "coerce L TFloat PNaN = Inr CNaN" by simp
  have c: "field_validator ''current_price'' CNaN = Inr CNaN"
    by (simp add: field_validator_def positive_fields_def)
  have d: "schema_errors L nan_price_record = []" by code_simp
  have e: "validate_records L [nan_price_record] = ([nan_price_record], [])"
    by code_simp
  have f: "validate_crypto_data_asset L (Some [nan_price_record]) None
     = Inr [nan_price_record]"
    by code_simp
  have g: "schema_errors L (dict_set btc_record ''current_price'' (PFloat (- 5))) =
     [\<lparr>err_loc = ''current_price'', err_input = PFloat (- 5),
       err_msg = ''Value error, Price and volume values must be positive''\<rparr>]"
    by code_simp
  have h: "schema_errors L (dict_set btc_record ''current_price'' (PFloat 0)) = []"
    by code_simp
  from a b c d e f g h show ?thesis by (intro conjI)
qed



section \<open>The claims about the validator\<close>

text \<open>
  Claim C4. For every batch the loop puts each record in exactly one of the two lists: the
  valid list is the batch's accepted records in order, the rejection list has one entry for
  each rejected position, in order, and a position is rejected exactly when its record is not
  accepted; so the two counts add up to the size of the batch. The loop runs over the whole
  batch whatever any record did, and for a non-empty batch the asset returns the valid list
  unless the sample log line cannot format the first valid record's price.
\<close>

theorem validation_partitions_batch:
  assumes "validate_records L batch = (valid, invalid)"
  shows "length valid + length invalid = length batch \<and>
     valid = filter (\<lambda>r. schema_errors L r = []) batch \<and>
     map record_index invalid =
       filter (\<lambda>j. schema_errors L (batch ! j) \<noteq> []) [0..<length batch] \<and>
     map record_data invalid = filter (\<lambda>r. schema_errors L r \<noteq> []) batch \<and>
     (\<forall>j<length batch.
        (schema_errors L (batch ! j) = []) \<noteq> (j \<in> set (map record_index invalid))) \<and>
     (batch \<noteq> [] \<longrightarrow>
        validate_crypto_data_asset L (Some batch) g = Inr valid \<or>
        validate_crypto_data_asset L (Some batch) g = Inl FormatError)"
proof -
  from assms have v: "valid = filter (\<lambda>r. schema_errors L r = []) batch"
    and i: "invalid = map (\<lambda>j. \<lparr>record_index = j, record_data = batch ! j,
                  errors = error_details (schema_errors L (batch ! j))\<rparr>)
        (filter (\<lambda>j. schema_errors L (batch ! j) \<noteq> []) [0..<length batch])"
    by (simp_all add: validate_records_eq)
  have idx: "map record_index invalid =
       filter (\<lambda>j. schema_errors L (batch ! j) \<noteq> []) [0..<length batch]"
    by (simp add: i comp_def)
  have "map record_data invalid =
      map (\<lambda>j. batch ! j) (filter (\<lambda>j. schema_errors L (batch ! j) \<noteq> []) [0..<length batch])"
    by (simp add: i comp_def)
  also have "\<dots> = filter (\<lambda>r. schema_errors L r \<noteq> []) (map (\<lambda>j. batch ! j) [0..<length batch])"
    by (simp add: filter_map comp_def)
  finally have dat: "map record_data invalid = filter (\<lambda>r. schema_errors L r \<noteq> []) batch"
    by (simp add: map_nth)
  have "length invalid = length (filter (\<lambda>r. schema_errors L r \<noteq> []) batch)"
    using dat by (metis length_map)
  then have len: "length valid + length invalid = length batch"
    using sum_length_filter_compl[of "\<lambda>r. schema_errors L r = []" batch] by (simp add: v)
  have once: "\<forall>j<length batch.
        (schema_errors L (batch ! j) = []) \<noteq> (j \<in> set (map record_index invalid))"
    unfolding idx by auto
  have asset: "batch \<noteq> [] \<longrightarrow>
        validate_crypto_data_asset L (Some batch) g = Inr valid \<or>
        validate_crypto_data_asset L (Some batch) g = Inl FormatError"
    using validate_batch_cases[of batch L] assms
    by (auto simp: validate_crypto_data_asset_def)
  from len v idx dat once asset show ?thesis by blast
qed

theorem validation_partitions_batch_witness:
  "validate_records strict_library [btc_record, faulty_record] =
     ([btc_record],
      [\<lparr>record_index = 1, record_data = faulty_record,
        errors = [Detail ''symbol'' (PStr ''BTC'')
                    ''Value error, Symbol must be lowercase alphanumeric'',
                  Detail ''market_cap_rank'' (PInt (- 1))
                    ''Value error, Market cap rank must be positive'']\<rparr>]) \<and>
   length [btc_record] + length [\<lparr>record_index = 1, record_data = faulty_record,
        errors = [Detail ''symbol'' (PStr ''BTC'')
                    ''Value error, Symbol must be lowercase alphanumeric'',
                  Detail ''market_cap_rank'' (PInt (- 1))
                    ''Value error, Market cap rank must be positive'']\<rparr>]
     = length [btc_record, faulty_record]"
proof -
  have h: "validate_records strict_library [btc_record, faulty_record] =
     ([btc_record],
      [\<lparr>record_index = 1, record_data = faulty_record,
        errors = [Detail ''symbol'' (PStr ''BTC'')
                    ''Value error, Symbol must be lowercase alphanumeric'',
                  Detail ''market_cap_rank'' (PInt (- 1))
                    ''Value error, Market cap rank must be positive'']\<rparr>])"
    by code_simp
  from validation_partitions_batch[OF h, THEN conjunct1] h show ?thesis
    by (rule conjI[rotated])
qed

text \<open>
  Claim C1 (the code departs from it). On an empty batch the asset raises
  \<^verbatim>\<open>ZeroDivisionError\<close> at the summary line, from either source, instead of reporting a
  success rate of 0 and completing. The storage function, given an empty list, does leave
  the table as it was; what it returns there is the \<^verbatim>\<open>Path\<close> object, which the dagster
  step refuses as an output annotated \<^verbatim>\<open>str\<close>.
\<close>

theorem empty_batch_divides_by_zero:
  "validate_crypto_data_asset L (Some []) g = Inl ZeroDivisionError \<and>
   validate_crypto_data_asset L None (Some []) = Inl ZeroDivisionError \<and>
   success_rate 0 0 = Inl ZeroDivisionError \<and>
   store_validated_crypto_data B [] db = (Inr (PosixPath db_path), db) \<and>
   store_step B [] db = (Inl DagsterTypeCheckDidNotPass, db)"
  by (simp add: validate_crypto_data_asset_def validate_batch_def validate_records_def
      success_rate_def store_validated_crypto_data_def store_step_def)

text \<open>
  Claim C6, as amended. A rejection entry holds the record's index in the batch, the raw
  record itself, and the diagnostics of the record's schema errors, each the field, the
  offending input and the reason. Every field of the schema is checked whatever the other
  fields did, and each field that fails contributes exactly one diagnostic, in field order:
  its annotation's violation, or, when the annotation is satisfied, its validator's. So a
  record that fails on several fields accumulates several diagnostics.
\<close>

theorem rejection_entry_contents:
  assumes "validate_records L batch = (valid, invalid)" and "e \<in> set invalid"
  shows "record_index e < length batch \<and>
     record_data e = batch ! record_index e \<and>
     errors e = error_details (schema_errors L (record_data e)) \<and>
     errors e \<noteq> [] \<and>
     map err_loc (schema_errors L (record_data e)) =
       map fst (filter (\<lambda>fa. isl (validate_field L (record_data e) fa)) CryptoPrice_fields) \<and>
     length (errors e) =
       length (filter (\<lambda>fa. isl (validate_field L (record_data e) fa)) CryptoPrice_fields) \<and>
     (\<forall>fa er. fa \<in> set CryptoPrice_fields \<and> validate_field L (record_data e) fa = Inl er \<longrightarrow>
        Detail (fst fa) (err_input er) (err_msg er) \<in> set (errors e))"
proof -
  from assms(1) have "invalid = map (\<lambda>j. \<lparr>record_index = j, record_data = batch ! j,
                  errors = error_details (schema_errors L (batch ! j))\<rparr>)
        (filter (\<lambda>j. schema_errors L (batch ! j) \<noteq> []) [0..<length batch])"
    by (simp add: validate_records_eq)
  with assms(2) obtain j where j: "j < length batch" "schema_errors L (batch ! j) \<noteq> []"
    and e: "e = \<lparr>record_index = j, record_data = batch ! j,
                  errors = error_details (schema_errors L (batch ! j))\<rparr>"
    by auto
  from e j(1) have a: "record_index e < length batch" by simp
  from e have b: "record_data e = batch ! record_index e" by simp
  from e have c: "errors e = error_details (schema_errors L (record_data e))" by simp
  from e j(2) have d: "errors e \<noteq> []" by (simp add: error_details_def)
  have f: "map err_loc (schema_errors L (record_data e)) =
       map fst (filter (\<lambda>fa. isl (validate_field L (record_data e) fa)) CryptoPrice_fields)"
    unfolding schema_errors_def by (rule map_err_loc_lefts)
  have "length (errors e) = length (map err_loc (schema_errors L (record_data e)))"
    by (simp add: c error_details_def)
  with f have g: "length (errors e) =
       length (filter (\<lambda>fa. isl (validate_field L (record_data e) fa)) CryptoPrice_fields)"
    by simp
  have h: "\<forall>fa er. fa \<in> set CryptoPrice_fields \<and> validate_field L (record_data e) fa = Inl er \<longrightarrow>
        Detail (fst fa) (err_input er) (err_msg er) \<in> set (errors e)"
  proof (intro allI impI, elim conjE)
    fix fa er
    assume mem: "fa \<in> set CryptoPrice_fields"
      and vf: "validate_field L (record_data e) fa = Inl er"
    from error_rejects(1)[OF mem vf] have "er \<in> set (schema_errors L (record_data e))" .
    then have "Detail (err_loc er) (err_input er) (err_msg er) \<in> set (errors e)"
      unfolding c error_details_def set_map by (rule imageI)
    with validate_field_loc[OF vf] show "Detail (fst fa) (err_input er) (err_msg er) \<in> set (errors e)"
      by simp
  qed
  from a b c d f g h show ?thesis by (intro conjI)
qed

theorem rejection_entry_contents_witness:
  "validate_records strict_library [btc_record, faulty_record] =
     ([btc_record],
      [\<lparr>record_index = 1, record_data = faulty_record,
        errors = [Detail ''symbol'' (PStr ''BTC'')
                    ''Value error, Symbol must be lowercase alphanumeric'',
                  Detail ''market_cap_rank'' (PInt (- 1))
                    ''Value error, Market cap rank must be positive'']\<rparr>]) \<and>
   faulty_record = [btc_record, faulty_record] ! 1 \<and>
   [Detail ''symbol'' (PStr ''BTC'') ''Value error, Symbol must be lowercase alphanumeric'',
    Detail ''market_cap_rank'' (PInt (- 1)) ''Value error, Market cap rank must be positive'']
     = error_details (schema_errors strict_library faulty_record)"
proof -
  let ?e = "\<lparr>record_index = 1, record_data = faulty_record,
        errors = [Detail ''symbol'' (PStr ''BTC'')
                    ''Value error, Symbol must be lowercase alphanumeric'',
                  Detail ''market_cap_rank'' (PInt (- 1))
                    ''Value error, Market cap rank must be positive'']\<rparr>"
  have h: "validate_records strict_library [btc_record, faulty_record] = ([btc_record], [?e])"
    by code_simp
  have m: "?e \<in> set [?e]" by simp
  note t = rejection_entry_contents[OF h m]
  from t[THEN conjunct2, THEN conjunct1]
  have a: "faulty_record = [btc_record, faulty_record] ! 1" by simp
  from t[THEN conjunct2, THEN conjunct2, THEN conjunct1]
  have b: "[Detail ''symbol'' (PStr ''BTC'') ''Value error, Symbol must be lowercase alphanumeric'',
    Detail ''market_cap_rank'' (PInt (- 1)) ''Value error, Market cap rank must be positive'']
     = error_details (schema_errors strict_library faulty_record)" by simp
  from h a b show ?thesis by (intro conjI)
qed

text \<open>
  Claim C6 as stated fails: within one field the validator runs only after the annotation's
  check has passed. The sample record with the market capitalisation \<open>-1.5\<close> violates the
  integer constraint and, by the validator's own test, the non-negativity constraint, but its
  rejection holds the one diagnostic of the first.
\<close>

theorem fractional_negative_cap_single_diagnostic:
  "map_of fractional_cap_record ''market_cap'' = Some (PFloat (- 3 / 2)) \<and>
   frac (- 3 / 2 :: real) \<noteq> 0 \<and>
   validate_positive_values (- 3 / 2 :: real) = Inl ''Price and volume values must be positive'' \<and>
   validate_records strict_library [fractional_cap_record] =
     ([],
      [\<lparr>record_index = 0, record_data = fractional_cap_record,
        errors = [Detail ''market_cap'' (PFloat (- 3 / 2))
           ''Input should be a valid integer, got a number with a fractional part'']\<rparr>])"
proof -
  have a: "map_of fractional_cap_record ''market_cap'' = Some (PFloat (- 3 / 2))"
    by (simp add: fractional_cap_record_def btc_record_def)
  have b: "frac (- 3 / 2 :: real) \<noteq> 0" by (simp add: frac_def)
  have c: "validate_positive_values (- 3 / 2 :: real) =
      Inl ''Price and volume values must be positive''"
    by (simp add: validate_positive_values_def)
  have d: "validate_records strict_library [fractional_cap_record] =
     ([],
      [\<lparr>record_index = 0, record_data = fractional_cap_record,
        errors = [Detail ''market_cap'' (PFloat (- 3 / 2))
           ''Input should be a valid integer, got a number with a fractional part'']\<rparr>])"
    by code_simp
  from a b c d show ?thesis by (intro conjI)
qed

section \<open>Facts about the storage step\<close>

lemma length_map_filter_le: "length (List.map_filter f xs) \<le> length xs"
  by (induction xs) (auto simp: List.map_filter_simps split: option.splits)

lemma mixed_offsets_single: "length cells \<le> 1 \<Longrightarrow> \<not> mixed_offsets B cells"
proof -
  assume "length cells \<le> 1"
  with length_map_filter_le[of "pd_to_datetime B cells" cells]
  have "length (map ts_offset (List.map_filter (pd_to_datetime B cells) cells)) \<le> 1" by simp
  with length_remdups_leq[of "map ts_offset (List.map_filter (pd_to_datetime B cells) cells)"]
  show ?thesis unfolding mixed_offsets_def by linarith
qed

lemma map_of_replace:
  "map_of (map (\<lambda>(c, cells). if c = col then (c, new) else (c, cells)) xs) k =
     (if k = col then map_option (\<lambda>old. new) (map_of xs k) else map_of xs k)"
  by (induction xs) auto

lemma names_set_column: "map fst (columns (set_column col new df)) = map fst (columns df)"
  by (auto simp: set_column_def split: prod.splits)

lemma map_of_set_column:
  "k \<noteq> col \<Longrightarrow> map_of (columns (set_column col new df)) k = map_of (columns df) k"
  by (simp add: set_column_def map_of_replace)

lemma n_rows_set_column: "n_rows (set_column col new df) = n_rows df"
  by (simp add: set_column_def)

lemma convert_small:
  assumes "\<forall>cc\<in>set (columns df). length (snd cc) \<le> 1"
  shows "\<exists>df'. convert_datetime_columns B cols df = Inr df' \<and>
           map fst (columns df') = map fst (columns df) \<and> n_rows df' = n_rows df \<and>
           (\<forall>k. k \<notin> set cols \<longrightarrow> map_of (columns df') k = map_of (columns df) k)"
  using assms
proof (induction cols arbitrary: df)
  case Nil
  then show ?case by simp
next
  case (Cons col cols)
  show ?case
  proof (cases "map_of (columns df) col")
    case None
    with Cons.IH[OF Cons.prems] show ?thesis by auto
  next
    case (Some cells)
    then have "(col, cells) \<in> set (columns df)" by (rule map_of_SomeD)
    with Cons.prems have len: "length cells \<le> 1" by auto
    then have nm: "\<not> mixed_offsets B cells" by (rule mixed_offsets_single)
    let ?df2 = "set_column col (map (datetime_text B cells) cells) df"
    from Cons.prems len have small: "\<forall>cc\<in>set (columns ?df2). length (snd cc) \<le> 1"
      by (auto simp: set_column_def split: if_splits)
    from Cons.IH[OF small] obtain df' where df':
      "convert_datetime_columns B cols ?df2 = Inr df'"
      "map fst (columns df') = map fst (columns ?df2)" "n_rows df' = n_rows ?df2"
      "\<forall>k. k \<notin> set cols \<longrightarrow> map_of (columns df') k = map_of (columns ?df2) k"
      by blast
    have "convert_datetime_columns B (col # cols) df = Inr df'"
      using Some nm df'(1) by simp
    moreover have "map fst (columns df') = map fst (columns df)"
      using df'(2) by (simp only: names_set_column)
    moreover have "n_rows df' = n_rows df" using df'(3) by (simp only: n_rows_set_column)
    moreover have "\<forall>k. k \<notin> set (col # cols) \<longrightarrow> map_of (columns df') k = map_of (columns df) k"
      using df'(4) by (simp add: map_of_set_column)
    ultimately show ?thesis by blast
  qed
qed

lemma filled_frame_columns:
  "columns (fill_object_columns B (DataFrame data)) =
     map (\<lambda>c. (c, filled_column B data c)) (df_columns [] data)"
  by (simp add: fill_object_columns_def DataFrame_def filled_column_def Let_def comp_def)

lemma length_filled_column: "length (filled_column B data col) = length data"
  by (simp add: filled_column_def fillna_def Let_def)

lemma cleaned_single:
  "\<exists>df. cleaned_frame B [r] = Inr df \<and> map fst (columns df) = df_columns [] [r] \<and>
        n_rows df = 1 \<and>
        (\<forall>k. k \<notin> set datetime_cols \<longrightarrow>
           map_of (columns df) k =
             map_of (map (\<lambda>c. (c, filled_column B [r] c)) (df_columns [] [r])) k)"
proof -
  let ?df0 = "fill_object_columns B (DataFrame [r])"
  have "\<forall>cc\<in>set (columns ?df0). length (snd cc) \<le> 1"
    by (auto simp: filled_frame_columns length_filled_column)
  from convert_small[OF this, of B datetime_cols] obtain df where
    "convert_datetime_columns B datetime_cols ?df0 = Inr df"
    "map fst (columns df) = map fst (columns ?df0)" "n_rows df = n_rows ?df0"
    "\<forall>k. k \<notin> set datetime_cols \<longrightarrow> map_of (columns df) k = map_of (columns ?df0) k"
    by blast
  then have "cleaned_frame B [r] = Inr df \<and> map fst (columns df) = df_columns [] [r] \<and>
        n_rows df = 1 \<and>
        (\<forall>k. k \<notin> set datetime_cols \<longrightarrow>
           map_of (columns df) k =
             map_of (map (\<lambda>c. (c, filled_column B [r] c)) (df_columns [] [r])) k)"
    by (simp add: cleaned_frame_def filled_frame_columns comp_def)
      (simp add: fill_object_columns_def DataFrame_def)
  then show ?thesis by blast
qed

lemma binder_error:
  assumes "length (df_columns [] [r]) \<noteq> length (schema (create_table_if_not_exists db))"
  shows "store_validated_crypto_data B [r] db =
           (Inl BinderException, Some (create_table_if_not_exists db))"
proof -
  from cleaned_single[of B r] obtain df where df: "cleaned_frame B [r] = Inr df"
    and names: "map fst (columns df) = df_columns [] [r]" by blast
  from names have "length (columns df) = length (df_columns [] [r])"
    by (metis length_map)
  with assms df show ?thesis
    by (simp add: store_validated_crypto_data_def insert_select_star_def Let_def)
qed

lemma no_roi_names: "df_columns [] [no_roi_record] =
     [''id'', ''symbol'', ''name'', ''image'', ''current_price'', ''market_cap'',
      ''market_cap_rank'', ''fully_diluted_valuation'', ''total_volume'', ''high_24h'',
      ''low_24h'', ''price_change_24h'', ''price_change_percentage_24h'',
      ''market_cap_change_24h'', ''market_cap_change_percentage_24h'', ''circulating_supply'',
      ''total_supply'', ''max_supply'', ''ath'', ''ath_change_percentage'', ''ath_date'',
      ''atl'', ''atl_change_percentage'', ''atl_date'', ''last_updated'', ''fetched_at'']"
  by code_simp

lemma extra_key_names: "length (df_columns [] [extra_key_record]) = 28 \<and>
   ''sparkline'' \<in> set (df_columns [] [extra_key_record])"
  by code_simp

lemma api_order_names:
  "df_columns [] [btc_record] = map fst btc_record \<and>
   df_columns [] [nested_roi_record] = map fst btc_record"
  by code_simp

lemma schema_length: "length table_schema = 27"
  by (simp add: table_schema_def)

lemma no_roi_binder:
  "store_validated_crypto_data B [no_roi_record] None =
     (Inl BinderException, Some \<lparr>schema = table_schema, table_rows = []\<rparr>) \<and>
   store_validated_crypto_data B [no_roi_record] (Some \<lparr>schema = table_schema, table_rows = []\<rparr>) =
     (Inl BinderException, Some \<lparr>schema = table_schema, table_rows = []\<rparr>)"
proof -
  have l: "length (df_columns [] [no_roi_record]) \<noteq> 27" unfolding no_roi_names by simp
  have a: "length (df_columns [] [no_roi_record]) \<noteq> length (schema (create_table_if_not_exists None))"
    using l by (simp add: create_table_if_not_exists_def schema_length)
  have b: "length (df_columns [] [no_roi_record]) \<noteq>
      length (schema (create_table_if_not_exists (Some \<lparr>schema = table_schema, table_rows = []\<rparr>)))"
    using l by (simp add: create_table_if_not_exists_def schema_length)
  from binder_error[OF a, of B] binder_error[OF b, of B] show ?thesis
    by (simp add: create_table_if_not_exists_def)
qed

lemma nth_by_name:
  assumes "distinct (map fst xs)" and "i < length xs"
  shows "map_of xs (fst (xs ! i)) = Some (snd (xs ! i))"
proof -
  from assms(2) have "xs ! i \<in> set xs" by (rule nth_mem)
  then have "(fst (xs ! i), snd (xs ! i)) \<in> set xs" by simp
  with assms(1) show ?thesis by (simp only: map_of_eq_Some_iff)
qed

lemma nested_roi_cell:
  "\<exists>df. cleaned_frame B [nested_roi_record] = Inr df \<and>
        map fst (columns df) = map fst btc_record \<and> n_rows df = 1 \<and>
        map_of (columns df) ''roi'' =
          Some [Some (PDict [(''percentage'', PFloat 12.5), (''currency'', PStr ''usd'')])]"
proof -
  have roi: "filled_column B [nested_roi_record] ''roi'' =
      [Some (PDict [(''percentage'', PFloat 12.5), (''currency'', PStr ''usd'')])]"
    by (simp add: filled_column_def fillna_def nested_roi_record_def btc_record_def Let_def)
  have nd: "''roi'' \<notin> set datetime_cols" by (simp add: datetime_cols_def)
  from cleaned_single[of B nested_roi_record] obtain df where
    df: "cleaned_frame B [nested_roi_record] = Inr df"
    and names: "map fst (columns df) = df_columns [] [nested_roi_record]"
    and rows: "n_rows df = 1"
    and other: "\<forall>k. k \<notin> set datetime_cols \<longrightarrow>
           map_of (columns df) k =
             map_of (map (\<lambda>c. (c, filled_column B [nested_roi_record] c))
                      (df_columns [] [nested_roi_record])) k"
    by (elim exE conjE)
  from other[rule_format, OF nd]
  have dfroi: "map_of (columns df) ''roi'' =
       map_of (map (\<lambda>c. (c, filled_column B [nested_roi_record] c))
                (df_columns [] [nested_roi_record])) ''roi''" .
  have "map_of (map (\<lambda>c. (c, filled_column B [nested_roi_record] c))
                (df_columns [] [nested_roi_record])) ''roi'' =
        Some (filled_column B [nested_roi_record] ''roi'')"
    unfolding api_order_names[THEN conjunct2] by (simp add: btc_record_def)
  with dfroi roi have cell: "map_of (columns df) ''roi'' =
        Some [Some (PDict [(''percentage'', PFloat 12.5), (''currency'', PStr ''usd'')])]"
    by simp
  from names have names': "map fst (columns df) = map fst btc_record"
    by (simp only: api_order_names[THEN conjunct2])
  show ?thesis
    by (rule exI[of _ df], rule conjI, rule df, rule conjI, rule names', rule conjI, rule rows,
        rule cell)
qed

lemma nested_roi_shifted_or_refused:
  "fst (store_validated_crypto_data B [nested_roi_record] None) = Inl ConversionException \<or>
   (\<exists>t. snd (store_validated_crypto_data B [nested_roi_record] None) = Some t \<and>
        select_column t ''last_updated'' =
          [Some (PDict [(''percentage'', PFloat 12.5), (''currency'', PStr ''usd'')])])"
proof -
  from nested_roi_cell[of B] obtain df where
    df: "cleaned_frame B [nested_roi_record] = Inr df"
    and names: "map fst (columns df) = map fst btc_record"
    and rows: "n_rows df = 1"
    and cell: "map_of (columns df) ''roi'' =
          Some [Some (PDict [(''percentage'', PFloat 12.5), (''currency'', PStr ''usd'')])]"
    by (elim exE conjE)
  let ?t0 = "\<lparr>schema = table_schema, table_rows = []\<rparr>"
  let ?t = "\<lparr>schema = table_schema, table_rows = frame_rows df\<rparr>"
  from names have "length (columns df) = length (map fst btc_record)" by (metis length_map)
  then have len: "length (columns df) = 27" by (simp add: btc_record_def)
  have dist: "distinct (map fst (columns df))" unfolding names by (simp add: btc_record_def)
  have i: "24 < length (columns df)" using len by simp
  from names have "map fst (columns df) ! 24 = map fst btc_record ! 24" by simp
  with i have n24: "fst (columns df ! 24) = ''roi''" by (simp add: btc_record_def)
  from nth_by_name[OF dist i] n24 cell
  have s24: "snd (columns df ! 24) =
      [Some (PDict [(''percentage'', PFloat 12.5), (''currency'', PStr ''usd'')])]" by simp
  have idx: "index_of ''last_updated'' (map fst table_schema) = Some 24"
    by (simp add: table_schema_def)
  have sel: "select_column ?t ''last_updated'' =
          [Some (PDict [(''percentage'', PFloat 12.5), (''currency'', PStr ''usd'')])]"
    using i s24 by (simp add: select_column_def idx frame_rows_def rows len case_prod_beta)
  show ?thesis
  proof (cases "db_converts B table_schema df")
    case False
    with df len have "fst (store_validated_crypto_data B [nested_roi_record] None)
        = Inl ConversionException"
      by (simp add: store_validated_crypto_data_def insert_select_star_def Let_def
          create_table_if_not_exists_def schema_length)
    then show ?thesis by (rule disjI1)
  next
    case True
    with df len have "snd (store_validated_crypto_data B [nested_roi_record] None) = Some ?t"
      by (simp add: store_validated_crypto_data_def insert_select_star_def Let_def
          create_table_if_not_exists_def schema_length)
    with sel show ?thesis by (intro disjI2 exI[of _ ?t] conjI)
  qed
qed

section \<open>The claims about the storage step\<close>

text \<open>
  Claim C2 (the code departs from it). The frame that is inserted has the records' own keys
  as columns, in the records' order: three records that the validator accepts show it. For
  the record without the optional key \<^verbatim>\<open>roi\<close> the frame has 26 columns and the insert
  raises; for the record with an extra key the frame keeps that key as a column and the
  insert raises; a nested \<^verbatim>\<open>roi\<close> stays a dictionary in its cell; and even the full
  record's columns are not in the table's order (\<^verbatim>\<open>roi\<close> comes before
  \<^verbatim>\<open>last_updated\<close>), while the insert takes columns by position.
\<close>

theorem frame_not_normalized_to_table_columns:
  "validate_records strict_library [no_roi_record, extra_key_record, nested_roi_record] =
     ([no_roi_record, extra_key_record, nested_roi_record], []) \<and>
   (\<exists>df. cleaned_frame B [no_roi_record] = Inr df \<and>
      map fst (columns df) =
        [''id'', ''symbol'', ''name'', ''image'', ''current_price'', ''market_cap'',
         ''market_cap_rank'', ''fully_diluted_valuation'', ''total_volume'', ''high_24h'',
         ''low_24h'', ''price_change_24h'', ''price_change_percentage_24h'',
         ''market_cap_change_24h'', ''market_cap_change_percentage_24h'', ''circulating_supply'',
         ''total_supply'', ''max_supply'', ''ath'', ''ath_change_percentage'', ''ath_date'',
         ''atl'', ''atl_change_percentage'', ''atl_date'', ''last_updated'', ''fetched_at'']) \<and>
   store_validated_crypto_data B [no_roi_record] None =
     (Inl BinderException, Some \<lparr>schema = table_schema, table_rows = []\<rparr>) \<and>
   (\<exists>df. cleaned_frame B [extra_key_record] = Inr df \<and>
      ''sparkline'' \<in> set (map fst (columns df))) \<and>
   store_validated_crypto_data B [extra_key_record] None =
     (Inl BinderException, Some \<lparr>schema = table_schema, table_rows = []\<rparr>) \<and>
   (\<exists>df. cleaned_frame B [nested_roi_record] = Inr df \<and>
      map_of (columns df) ''roi'' =
        Some [Some (PDict [(''percentage'', PFloat 12.5), (''currency'', PStr ''usd'')])]) \<and>
   (\<exists>df. cleaned_frame B [btc_record] = Inr df \<and>
      map fst (columns df) \<noteq> map fst table_schema)"
proof -
  have v: "validate_records strict_library [no_roi_record, extra_key_record, nested_roi_record] =
     ([no_roi_record, extra_key_record, nested_roi_record], [])"
    by code_simp
  from cleaned_single[of B no_roi_record] obtain df1 where
    df1: "cleaned_frame B [no_roi_record] = Inr df1"
    "map fst (columns df1) = df_columns [] [no_roi_record]" by (elim exE conjE)
  have a: "\<exists>df. cleaned_frame B [no_roi_record] = Inr df \<and>
      map fst (columns df) =
        [''id'', ''symbol'', ''name'', ''image'', ''current_price'', ''market_cap'',
         ''market_cap_rank'', ''fully_diluted_valuation'', ''total_volume'', ''high_24h'',
         ''low_24h'', ''price_change_24h'', ''price_change_percentage_24h'',
         ''market_cap_change_24h'', ''market_cap_change_percentage_24h'', ''circulating_supply'',
         ''total_supply'', ''max_supply'', ''ath'', ''ath_change_percentage'', ''ath_date'',
         ''atl'', ''atl_change_percentage'', ''atl_date'', ''last_updated'', ''fetched_at'']"
    by (rule exI[of _ df1], rule conjI, rule df1(1), simp only: df1(2) no_roi_names)
  have b: "store_validated_crypto_data B [no_roi_record] None =
     (Inl BinderException, Some \<lparr>schema = table_schema, table_rows = []\<rparr>)"
    by (rule no_roi_binder[THEN conjunct1])
  from cleaned_single[of B extra_key_record] obtain df2 where
    df2: "cleaned_frame B [extra_key_record] = Inr df2"
    "map fst (columns df2) = df_columns [] [extra_key_record]" by (elim exE conjE)
  have c: "\<exists>df. cleaned_frame B [extra_key_record] = Inr df \<and>
      ''sparkline'' \<in> set (map fst (columns df))"
    by (rule exI[of _ df2], rule conjI, rule df2(1), simp only: df2(2),
        rule extra_key_names[THEN conjunct2])
  have "length (df_columns [] [extra_key_record]) \<noteq>
      length (schema (create_table_if_not_exists None))"
    unfolding extra_key_names[THEN conjunct1]
    by (simp add: create_table_if_not_exists_def schema_length)
  from binder_error[OF this, of B]
  have d: "store_validated_crypto_data B [extra_key_record] None =
     (Inl BinderException, Some \<lparr>schema = table_schema, table_rows = []\<rparr>)"
    by (simp add: create_table_if_not_exists_def)
  have roi: "filled_column B [nested_roi_record] ''roi'' =
      [Some (PDict [(''percentage'', PFloat 12.5), (''currency'', PStr ''usd'')])]"
    by (simp add: filled_column_def fillna_def nested_roi_record_def btc_record_def Let_def)
  have nd: "''roi'' \<notin> set datetime_cols" by (simp add: datetime_cols_def)
  from cleaned_single[of B nested_roi_record] obtain df3 where
    df3: "cleaned_frame B [nested_roi_record] = Inr df3"
    and other: "\<forall>k. k \<notin> set datetime_cols \<longrightarrow>
           map_of (columns df3) k =
             map_of (map (\<lambda>c. (c, filled_column B [nested_roi_record] c))
                      (df_columns [] [nested_roi_record])) k"
    by (elim exE conjE)
  from other[rule_format, OF nd]
  have df3roi: "map_of (columns df3) ''roi'' =
       map_of (map (\<lambda>c. (c, filled_column B [nested_roi_record] c))
                (df_columns [] [nested_roi_record])) ''roi''" .
  have "map_of (map (\<lambda>c. (c, filled_column B [nested_roi_record] c))
                (df_columns [] [nested_roi_record])) ''roi'' =
        Some (filled_column B [nested_roi_record] ''roi'')"
    unfolding api_order_names[THEN conjunct2] by (simp add: btc_record_def)
  with df3roi roi have cell: "map_of (columns df3) ''roi'' =
        Some [Some (PDict [(''percentage'', PFloat 12.5), (''currency'', PStr ''usd'')])]"
    by simp
  have e: "\<exists>df. cleaned_frame B [nested_roi_record] = Inr df \<and>
      map_of (columns df) ''roi'' =
        Some [Some (PDict [(''percentage'', PFloat 12.5), (''currency'', PStr ''usd'')])]"
    by (rule exI[of _ df3], rule conjI, rule df3, rule cell)
  from cleaned_single[of B btc_record] obtain df4 where
    df4: "cleaned_frame B [btc_record] = Inr df4"
    "map fst (columns df4) = df_columns [] [btc_record]" by (elim exE conjE)
  have ne: "map fst btc_record \<noteq> map fst table_schema"
    by (simp add: btc_record_def table_schema_def)
  have f: "\<exists>df. cleaned_frame B [btc_record] = Inr df \<and>
      map fst (columns df) \<noteq> map fst table_schema"
    by (rule exI[of _ df4], rule conjI, rule df4(1),
        simp only: df4(2) api_order_names[THEN conjunct1], rule ne)
  from v a b c d e f show ?thesis by (intro conjI)
qed

text \<open>
  Claim C5 (the code departs from it). Two stores in succession on a fresh location, each of
  one record that the validator accepts but that lacks the optional key \<^verbatim>\<open>roi\<close>: both
  inserts raise, and the table, created with the fixed schema by the first call, has no row
  after the second, where the claim has two. The schema is indeed the same after both calls.
\<close>

theorem valid_batches_not_stored:
  "validate_records strict_library [no_roi_record] = ([no_roi_record], []) \<and>
   store_validated_crypto_data B [no_roi_record] None =
     (Inl BinderException, Some \<lparr>schema = table_schema, table_rows = []\<rparr>) \<and>
   store_validated_crypto_data B [no_roi_record]
       (snd (store_validated_crypto_data B [no_roi_record] None)) =
     (Inl BinderException, Some \<lparr>schema = table_schema, table_rows = []\<rparr>) \<and>
   length (table_rows \<lparr>schema = table_schema, table_rows = []\<rparr>) = 0 \<and>
   length [no_roi_record] + length [no_roi_record] = 2"
proof -
  have v: "validate_records strict_library [no_roi_record] = ([no_roi_record], [])"
    by code_simp
  note a = no_roi_binder[of B, THEN conjunct1]
  have b: "store_validated_crypto_data B [no_roi_record]
       (snd (store_validated_crypto_data B [no_roi_record] None)) =
     (Inl BinderException, Some \<lparr>schema = table_schema, table_rows = []\<rparr>)"
    unfolding a by (simp add: no_roi_binder[of B, THEN conjunct2])
  from v a b show ?thesis by simp
qed

text \<open>
  Claim C9 (the code departs from it). The sample record with a nested \<^verbatim>\<open>roi\<close>, which
  the validator accepts, stored on a fresh location: its date texts are normalised in the
  frame, but the frame's 25th column is \<^verbatim>\<open>roi\<close> where the table's is
  \<^verbatim>\<open>last_updated\<close>, and the insert goes by position. Read back by name, the table's
  \<^verbatim>\<open>last_updated\<close> holds the dictionary of \<^verbatim>\<open>roi\<close>, which is neither the canonical text
  of the record's parseable \<^verbatim>\<open>last_updated\<close> nor the empty string; \<^verbatim>\<open>fetched_at\<close>
  holds the text of \<^verbatim>\<open>last_updated\<close>, and \<^verbatim>\<open>roi\<close> the text of \<^verbatim>\<open>fetched_at\<close>.
  Only \<^verbatim>\<open>ath_date\<close> and \<^verbatim>\<open>atl_date\<close>, which come before \<^verbatim>\<open>roi\<close>, are in place.
  This does not depend on how pandas and DuckDB are taken to act: with any of them, either
  DuckDB refuses to convert the frame and nothing is stored, or the table's
  \<^verbatim>\<open>last_updated\<close> holds the dictionary.
\<close>

theorem roi_written_under_last_updated:
  "validate_records strict_library [nested_roi_record] = ([nested_roi_record], []) \<and>
   map_of nested_roi_record ''last_updated'' = Some (PStr ''2024-05-30T10:15:42.123Z'') \<and>
   map_of nested_roi_record ''fetched_at'' = Some (PStr ''2024-05-30T10:16:01.250311'') \<and>
   df_columns [] [nested_roi_record] ! 24 = ''roi'' \<and>
   map fst table_schema ! 24 = ''last_updated'' \<and>
   fst (store_validated_crypto_data sample_backend [nested_roi_record] None) = Inr (PyStr db_path) \<and>
   map_option (\<lambda>t. map (\<lambda>c. (c, select_column t c)) (datetime_cols @ [''roi'']))
     (snd (store_validated_crypto_data sample_backend [nested_roi_record] None)) =
     Some [(''ath_date'', [Some (PStr ''2024-03-14 07:10:36'')]),
           (''atl_date'', [Some (PStr ''2013-07-06 00:00:00'')]),
           (''last_updated'',
              [Some (PDict [(''percentage'', PFloat 12.5), (''currency'', PStr ''usd'')])]),
           (''fetched_at'', [Some (PStr ''2024-05-30 10:15:42'')]),
           (''roi'', [Some (PStr ''2024-05-30 10:16:01'')])] \<and>
   \<not> canonical_text [] \<and> canonical_text ''2024-05-30 10:15:42'' \<and>
   (fst (store_validated_crypto_data B [nested_roi_record] None) = Inl ConversionException \<or>
    (\<exists>t. snd (store_validated_crypto_data B [nested_roi_record] None) = Some t \<and>
         select_column t ''last_updated'' =
           [Some (PDict [(''percentage'', PFloat 12.5), (''currency'', PStr ''usd'')])]))"
proof -
  have a: "validate_records strict_library [nested_roi_record] = ([nested_roi_record], [])"
    by code_simp
  have b: "map_of nested_roi_record ''last_updated'' = Some (PStr ''2024-05-30T10:15:42.123Z'')"
    by code_simp
  have c: "map_of nested_roi_record ''fetched_at'' = Some (PStr ''2024-05-30T10:16:01.250311'')"
    by code_simp
  have d: "df_columns [] [nested_roi_record] ! 24 = ''roi''"
    unfolding api_order_names[THEN conjunct2] by (simp add: btc_record_def)
  have e: "map fst table_schema ! 24 = ''last_updated''"
    by (simp add: table_schema_def)
  have f: "fst (store_validated_crypto_data sample_backend [nested_roi_record] None)
      = Inr (PyStr db_path)"
    by code_simp
  have g: "map_option (\<lambda>t. map (\<lambda>c. (c, select_column t c)) (datetime_cols @ [''roi'']))
     (snd (store_validated_crypto_data sample_backend [nested_roi_record] None)) =
     Some [(''ath_date'', [Some (PStr ''2024-03-14 07:10:36'')]),
           (''atl_date'', [Some (PStr ''2013-07-06 00:00:00'')]),
           (''last_updated'',
              [Some (PDict [(''percentage'', PFloat 12.5), (''currency'', PStr ''usd'')])]),
           (''fetched_at'', [Some (PStr ''2024-05-30 10:15:42'')]),
           (''roi'', [Some (PStr ''2024-05-30 10:16:01'')])]"
    by code_simp
  have h: "\<not> canonical_text []" by (simp add: canonical_text_def)
  have i: "canonical_text ''2024-05-30 10:15:42''" by code_simp
  note j = nested_roi_shifted_or_refused[of B]
  from a b c d e f g h i j show ?thesis by (intro conjI)
qed

end
